theory Spec2Isabelle
  imports Complex_Main "HOL-Library.Monad_Syntax"
begin

section \<open>Numbers\<close>

text \<open>
  The program is TypeScript; its numbers are IEEE-754 doubles. They are embedded as
  \<^typ>\<open>real\<close>: every arithmetic operator and every \<open>Math\<close> function stands for its exact
  mathematical meaning. Rounding, \<open>NaN\<close>, the infinities and the sign of zero are outside
  the model, and the program differs from it wherever they decide the outcome: a sum such
  as \<open>longitude + 180\<close> may round up to the next integer, \<open>Math.sin\<close> of the double nearest
  to \<open>2\<pi>\<close> is not zero, the argument of \<open>Math.asin\<close> may round to just above 1 (the result
  is then \<open>NaN\<close>), and \<open>Math.atan2\<close> distinguishes a negative zero. Identities of exact
  arithmetic (periodicity of the sine, bounds on the arcsine's argument) are therefore not
  stated of the program. What is stated is of two kinds: equalities between the program's
  expression and another expression built from the same operations in the same order,
  which hold whatever the operations return; and evaluations at inputs where every
  intermediate value is exact in doubles, or lies far from the boundary that decides the
  result. Integer-valued numbers (the UTM zone) are \<^typ>\<open>int\<close>.
\<close>

definition atan2 :: "real \<Rightarrow> real \<Rightarrow> real" where
  \<comment> \<open>\<open>Math.atan2(y, x)\<close>: the angle of the point \<open>(x, y)\<close>, in \<open>(-\<pi>, \<pi>]\<close>. For \<open>y = 0\<close>
      and \<open>x \<le> 0\<close> the value is the one for a positive zero \<open>y\<close>; for a negative zero
      \<open>Math.atan2\<close> returns \<open>-\<pi>\<close> (or \<open>-0\<close>), which a real number cannot tell apart.
      Nothing below evaluates \<open>atan2\<close> there.\<close>
  "atan2 y x =
     (if 0 < x then arctan (y / x)
      else if x < 0 then (if 0 \<le> y then arctan (y / x) + pi else arctan (y / x) - pi)
      else if 0 < y then pi / 2
      else if y < 0 then - (pi / 2)
      else 0)"

section \<open>The direction cone\<close>

record GeoPoint =
  latitude :: real
  longitude :: real

definition generateConeCoordinates :: "real \<Rightarrow> real \<Rightarrow> real \<Rightarrow> real option \<Rightarrow> GeoPoint list" where
  \<comment> \<open>The fourth argument is optional in the source; \<open>None\<close> is the omitted argument,
      which takes the default of 100 metres.\<close>
  "generateConeCoordinates lat lon heading radius =
     (let radiusMeters = (case radius of None \<Rightarrow> 100 | Some r \<Rightarrow> r);
          R = 6371000;
          d = radiusMeters / R;
          brng1 = ((heading - 30) * pi) / 180;
          brng2 = ((heading + 30) * pi) / 180;
          lat1 = (lat * pi) / 180;
          lon1 = (lon * pi) / 180;
          lat2 = arcsin (sin lat1 * cos d + cos lat1 * sin d * cos brng1);
          lon2 = lon1 + atan2 (sin brng1 * sin d * cos lat1) (cos d - sin lat1 * sin lat2);
          lat3 = arcsin (sin lat1 * cos d + cos lat1 * sin d * cos brng2);
          lon3 = lon1 + atan2 (sin brng2 * sin d * cos lat1) (cos d - sin lat1 * sin lat3)
      in [\<lparr>latitude = lat, longitude = lon\<rparr>,
          \<lparr>latitude = (lat2 * 180) / pi, longitude = (lon2 * 180) / pi\<rparr>,
          \<lparr>latitude = (lat3 * 180) / pi, longitude = (lon3 * 180) / pi\<rparr>,
          \<lparr>latitude = lat, longitude = lon\<rparr>])"

text \<open>
  The specification describes the two vertices by one formula, applied to each bearing.
  The following definitions follow its wording: angles in degrees at the interface,
  radians inside, a sphere of radius 6371000 m.
\<close>

definition radians :: "real \<Rightarrow> real" where
  "radians deg = deg * pi / 180"

definition degrees :: "real \<Rightarrow> real" where
  "degrees rad = rad * 180 / pi"

definition destination :: "GeoPoint \<Rightarrow> real \<Rightarrow> real \<Rightarrow> GeoPoint" where
  \<comment> \<open>The spherical destination-point formula of the specification: the point reached
      from \<open>center\<close> after \<open>radiusMeters\<close> along the bearing \<open>bearing\<close> (degrees).\<close>
  "destination center bearing radiusMeters =
     (let d = radiusMeters / 6371000;
          lat1 = radians (latitude center);
          lon1 = radians (longitude center);
          brng = radians bearing;
          lat2 = arcsin (sin lat1 * cos d + cos lat1 * sin d * cos brng);
          lon2 = lon1 + atan2 (sin brng * sin d * cos lat1) (cos d - sin lat1 * sin lat2)
      in \<lparr>latitude = degrees lat2, longitude = degrees lon2\<rparr>)"

definition radius_or_default :: "real option \<Rightarrow> real" where
  "radius_or_default radius = (case radius of None \<Rightarrow> 100 | Some r \<Rightarrow> r)"

section \<open>Numbers as text\<close>

text \<open>
  JavaScript prints an integer-valued number below \<open>10\<^sup>2\<^sup>1\<close> in magnitude as its decimal
  digits, with a leading minus sign when negative. At and above \<open>10\<^sup>2\<^sup>1\<close> it switches to
  exponent notation, whose digits depend on the binary representation; that branch is a
  parameter \<open>expString\<close> of every function that may reach it.
\<close>

definition digit_char :: "nat \<Rightarrow> char" where
  "digit_char k = ''0123456789'' ! k"

fun decimal_digits :: "nat \<Rightarrow> string" where
  "decimal_digits n =
     (if n < 10 then [digit_char n] else decimal_digits (n div 10) @ [digit_char (n mod 10)])"

declare decimal_digits.simps [simp del]

definition number_to_string :: "(real \<Rightarrow> string) \<Rightarrow> int \<Rightarrow> string" where
  \<comment> \<open>\<open>String(n)\<close>, as a template literal applies it, for an integer-valued \<open>n\<close>.\<close>
  "number_to_string expString n =
     (if \<bar>n\<bar> < 10 ^ 21
      then (if n < 0 then CHR ''-'' # decimal_digits (nat (- n)) else decimal_digits (nat n))
      else expString (real_of_int n))"

definition toFixed :: "(real \<Rightarrow> string) \<Rightarrow> real \<Rightarrow> nat \<Rightarrow> string" where
  \<comment> \<open>\<open>x.toFixed(f)\<close> as ECMAScript defines it, for \<open>f \<le> 100\<close> (a larger \<open>f\<close> is a
      RangeError; the program passes 2). \<open>n\<close> is the integer for which \<open>n / 10\<^sup>f - x\<close> is
      closest to zero, the larger one on a tie.\<close>
  "toFixed expString x0 f =
     (let s = (if x0 < 0 then ''-'' else []);
          x = (if x0 < 0 then - x0 else x0)
      in if 10 ^ 21 \<le> x then s @ expString x
         else
           let n = nat \<lfloor>x * 10 ^ f + 1 / 2\<rfloor>;
               m = decimal_digits n;
               m = (if f \<noteq> 0
                    then (let m = (if length m \<le> f
                                   then replicate (f + 1 - length m) CHR ''0'' @ m else m);
                              k = length m
                          in take (k - f) m @ ''.'' @ drop (k - f) m)
                    else m)
           in s @ m)"

section \<open>The UTM ED50 conversion\<close>

definition proj4String :: "(real \<Rightarrow> string) \<Rightarrow> int \<Rightarrow> string \<Rightarrow> string" where
  \<comment> \<open>The template literal of step C, with its two interpolated values.\<close>
  "proj4String expString fuso stringaEmisfero =
     ''+proj=utm +zone='' @ number_to_string expString fuso @ stringaEmisfero
       @ '' +ellps=intl +towgs84=-87,-98,-121,0,0,0,0 +units=m +no_defs''"

record LocationData = GeoPoint +
  accuracy :: "real option"
  timestamp :: string

record ClickedPoint =
  lat :: real
  lon :: real
  est :: string
  nord :: string
  fuso :: int
  emisfero :: string

record NativeEvent =
  coordinate :: GeoPoint

record MapPressEvent =
  nativeEvent :: NativeEvent

text \<open>
  \<open>proj4\<close> is an external library. It is a parameter of the model: a function from the
  source definition, the target definition and the pair \<open>[longitude, latitude]\<close> to the pair
  \<open>[x, y]\<close> it returns.
\<close>

type_synonym proj4_fn = "string \<Rightarrow> string \<Rightarrow> real \<times> real \<Rightarrow> real \<times> real"

definition toUtmEd50 :: "proj4_fn \<Rightarrow> (real \<Rightarrow> string) \<Rightarrow> GeoPoint \<Rightarrow> ClickedPoint" where
  \<comment> \<open>Steps A to E of \<open>handleMapPress\<close>: everything up to the object literal that is handed
      to \<open>setClickedPoint\<close>. The specification calls this computation \<open>toUtmEd50\<close>. The
      zone is the floor of the exact quotient; in doubles the sum \<open>longitude + 180\<close> is
      rounded first, so just below a multiple of 6 the program may already give the next
      zone.\<close>
  "toUtmEd50 proj4 expString coord =
     (let latitude = GeoPoint.latitude coord;
          longitude = GeoPoint.longitude coord;
          fuso = \<lfloor>(longitude + 180) / 6\<rfloor> + 1;
          isSouth = latitude < 0;
          stringaEmisfero = (if isSouth then '' +south'' else []);
          proj4String = proj4String expString fuso stringaEmisfero;
          (x, y) = proj4 ''WGS84'' proj4String (longitude, latitude)
      in \<lparr>lat = latitude, lon = longitude,
          est = toFixed expString x 2, nord = toFixed expString y 2,
          fuso = fuso, emisfero = (if isSouth then ''S'' else ''N'')\<rparr>)"

definition projected :: "proj4_fn \<Rightarrow> (real \<Rightarrow> string) \<Rightarrow> GeoPoint \<Rightarrow> real \<times> real" where
  \<comment> \<open>The pair \<open>[x, y]\<close> of step D on its own: the library applied to \<open>WGS84\<close>, the target
      definition of steps A to C and the pair \<open>[longitude, latitude]\<close>.\<close>
  "projected proj4 expString coord =
     proj4 ''WGS84''
       (proj4String expString (\<lfloor>(longitude coord + 180) / 6\<rfloor> + 1)
          (if latitude coord < 0 then '' +south'' else []))
       (longitude coord, latitude coord)"

record AppState =
  location :: "LocationData option"
  locLoader :: bool
  error :: "string option"
  heading :: real
  clickedPoint :: "ClickedPoint option"
  mapType :: "string option"

definition setClickedPoint :: "ClickedPoint \<Rightarrow> AppState \<Rightarrow> AppState" where
  "setClickedPoint p st = st\<lparr>clickedPoint := Some p\<rparr>"

definition handleMapPress :: "proj4_fn \<Rightarrow> (real \<Rightarrow> string) \<Rightarrow> MapPressEvent \<Rightarrow> AppState \<Rightarrow> AppState" where
  \<comment> \<open>The handler: the component state is passed in and returned.\<close>
  "handleMapPress proj4 expString event st =
     setClickedPoint (toUtmEd50 proj4 expString (coordinate (nativeEvent event))) st"

section \<open>Reading text back\<close>

text \<open>
  The conversion produces text: the target definition handed to the library, and the
  easting and northing it stores. What that text says is stated through readers. They
  follow the specification's wording, not the program: a definition is a sequence of
  parameters \<open>+key=value\<close> or \<open>+key\<close> separated by blanks, and a displayed coordinate is
  an optional sign, an integer part, a point and a fractional part.
\<close>

definition is_digit :: "char \<Rightarrow> bool" where
  "is_digit c \<longleftrightarrow> c \<in> set ''0123456789''"

definition digit_value :: "char \<Rightarrow> nat" where
  "digit_value c = of_char c - 48"

definition digits_value :: "string \<Rightarrow> nat" where
  "digits_value s = foldl (\<lambda>a c. 10 * a + digit_value c) 0 s"

definition read_nat :: "string \<Rightarrow> nat option" where
  "read_nat s = (if s \<noteq> [] \<and> list_all is_digit s then Some (digits_value s) else None)"

definition read_int :: "string \<Rightarrow> int option" where
  "read_int s =
     (if s \<noteq> [] \<and> hd s = CHR ''-'' then map_option (\<lambda>n. - int n) (read_nat (tl s))
      else map_option int (read_nat s))"

fun split_on :: "char \<Rightarrow> string \<Rightarrow> string list" where
  "split_on c [] = [[]]"
| "split_on c (x # xs) =
     (case split_on c xs of
        [] \<Rightarrow> [[x]]
      | w # ws \<Rightarrow> if x = c then [] # w # ws else (x # w) # ws)"

definition parameter :: "string \<Rightarrow> (string \<times> string) option" where
  \<comment> \<open>One word of a definition: its key and its value (empty for a flag).\<close>
  "parameter w =
     (if w \<noteq> [] \<and> hd w = CHR ''+''
      then Some (takeWhile (\<lambda>c. c \<noteq> CHR ''='') (tl w),
                 drop 1 (dropWhile (\<lambda>c. c \<noteq> CHR ''='') (tl w)))
      else None)"

definition parameters :: "string \<Rightarrow> (string \<times> string) list" where
  "parameters s = List.map_filter parameter (split_on CHR '' '' s)"

record ProjectionDef =
  projection :: string
  zone :: int
  south :: bool
  ellipsoid :: string
  datumShift :: "int list"
  units :: string

definition read_definition :: "string \<Rightarrow> ProjectionDef option" where
  \<comment> \<open>The projection definition as the specification's structure: projection, zone,
      south flag, ellipsoid, the seven datum-shift parameters, linear units.\<close>
  "read_definition s =
     (let ps = parameters s in
      do {
        p \<leftarrow> map_of ps ''proj'';
        zs \<leftarrow> map_of ps ''zone'';
        z \<leftarrow> read_int zs;
        e \<leftarrow> map_of ps ''ellps'';
        ts \<leftarrow> map_of ps ''towgs84'';
        t \<leftarrow> those (map read_int (split_on CHR '','' ts));
        u \<leftarrow> map_of ps ''units'';
        Some \<lparr>projection = p, zone = z, south = (map_of ps ''south'' = Some []),
              ellipsoid = e, datumShift = t, units = u\<rparr>
      })"

definition rounded :: "real \<Rightarrow> nat \<Rightarrow> real" where
  \<comment> \<open>\<open>x\<close> rounded to \<open>f\<close> decimal places, a half away from zero.\<close>
  "rounded x f = sgn x * real_of_int \<lfloor>\<bar>x\<bar> * 10 ^ f + 1 / 2\<rfloor> / 10 ^ f"

definition read_decimal :: "string \<Rightarrow> (real \<times> nat) option" where
  \<comment> \<open>The value of a decimal numeral and the number of its decimal places.\<close>
  "read_decimal s =
     (let neg = (s \<noteq> [] \<and> hd s = CHR ''-'');
          body = (if neg then tl s else s);
          ip = takeWhile (\<lambda>c. c \<noteq> CHR ''.'') body;
          fp = drop 1 (dropWhile (\<lambda>c. c \<noteq> CHR ''.'') body)
      in do {
        a \<leftarrow> read_nat ip;
        b \<leftarrow> read_nat fp;
        Some ((if neg then - 1 else 1) * (real a + real b / 10 ^ length fp), length fp)
      })"

definition padded :: "nat \<Rightarrow> string" where
  \<comment> \<open>The digits of \<open>n\<close> with leading zeros up to three places: the text \<open>toFixed\<close> cuts
      into integer and fractional part when it is asked for two decimals.\<close>
  "padded n =
     (if length (decimal_digits n) \<le> 2
      then replicate (3 - length (decimal_digits n)) CHR ''0'' @ decimal_digits n
      else decimal_digits n)"

section \<open>Shape of the cone\<close>

text \<open>
  C5. For every centre, heading and radius (given or omitted) the cone is the list of
  exactly four points: the centre as it was passed in, the destination vertex for the
  bearing \<open>heading - 30\<close>, the destination vertex for the bearing \<open>heading + 30\<close>, and the
  centre again. Its first and fourth elements are the centre with the very latitude and
  longitude that were passed, so the list is a closed ring with the centre as apex and the
  two destination vertices in between.
\<close>

theorem cone_closed_ring:
  "generateConeCoordinates clat clon hdg radius
     = [\<lparr>latitude = clat, longitude = clon\<rparr>,
        destination \<lparr>latitude = clat, longitude = clon\<rparr> (hdg - 30) (radius_or_default radius),
        destination \<lparr>latitude = clat, longitude = clon\<rparr> (hdg + 30) (radius_or_default radius),
        \<lparr>latitude = clat, longitude = clon\<rparr>]
   \<and> length (generateConeCoordinates clat clon hdg radius) = 4
   \<and> generateConeCoordinates clat clon hdg radius ! 0 = \<lparr>latitude = clat, longitude = clon\<rparr>
   \<and> generateConeCoordinates clat clon hdg radius ! 3 = \<lparr>latitude = clat, longitude = clon\<rparr>"
  by (simp add: generateConeCoordinates_def destination_def radians_def degrees_def
      radius_or_default_def Let_def)

section \<open>The vertices of the cone\<close>

text \<open>
  C3. With the Earth a sphere of radius 6371000 m and the angular distance
  \<open>d = radiusMeters / R\<close>, the second and third points of the cone are the destination
  points of the specification's formula for the bearings \<open>heading - 30\<close> and
  \<open>heading + 30\<close> degrees: inputs in degrees are converted to radians, the latitude is an
  arcsine, the longitude is the centre's plus an \<open>atan2\<close>, and both results are converted
  back to degrees.
\<close>

theorem cone_vertices_destination:
  "generateConeCoordinates clat clon hdg radius ! 1
     = destination \<lparr>latitude = clat, longitude = clon\<rparr> (hdg - 30) (radius_or_default radius)
   \<and> generateConeCoordinates clat clon hdg radius ! 2
     = destination \<lparr>latitude = clat, longitude = clon\<rparr> (hdg + 30) (radius_or_default radius)"
  by (simp add: generateConeCoordinates_def destination_def radians_def degrees_def
      radius_or_default_def Let_def)

section \<open>Longitudes beyond 180 degrees\<close>

text \<open>
  The computed longitude is the centre's longitude plus an angle, converted to degrees,
  and is returned as it is. From the centre (0, 180) with heading 120 the first vertex lies
  due east (bearing 90 degrees), 100 m along the equator: its longitude is 180 plus the
  angular distance in degrees, about 180.0009.
\<close>

lemma east_vertex_beyond_180:
  "180 < longitude (generateConeCoordinates 0 180 120 (Some 100) ! 1)"
proof -
  let ?d = "1 / 63710 :: real"
  have "0 < ?d" by simp
  have "?d < 1" by simp
  also have "(1::real) \<le> pi / 2" using pi_ge_two by simp
  finally have upper: "?d < pi / 2" .
  have "- (pi / 2) < 0" by simp
  also note \<open>0 < ?d\<close>
  finally have lower: "- (pi / 2) < ?d" .
  from lower upper have "0 < cos ?d" by (rule cos_gt_zero_pi)
  then have "atan2 (sin ?d) (cos ?d) = arctan (tan ?d)"
    by (simp add: atan2_def tan_def)
  also have "\<dots> = ?d" using lower upper by (rule arctan_tan)
  finally have angle: "atan2 (sin ?d) (cos ?d) = ?d" .
  have "longitude (generateConeCoordinates 0 180 120 (Some 100) ! 1)
      = 180 + (1 / 63710) * 180 / pi"
    by (simp add: generateConeCoordinates_def Let_def angle add_divide_distrib distrib_right)
  moreover have "0 < (1 / 63710) * 180 / pi" by simp
  ultimately show ?thesis by linarith
qed

section \<open>Zone and hemisphere\<close>

lemma toUtmEd50_fuso:
  "fuso (toUtmEd50 P E pt) = \<lfloor>(longitude pt + 180) / 6\<rfloor> + 1"
  by (simp add: toUtmEd50_def Let_def split: prod.split)

lemma toUtmEd50_emisfero:
  "emisfero (toUtmEd50 P E pt) = (if latitude pt < 0 then ''S'' else ''N'')"
  by (simp add: toUtmEd50_def Let_def split: prod.split)

text \<open>
  C1. The zone is \<open>floor ((longitude + 180) / 6) + 1\<close>, and it should lie in \<open>[1, 60]\<close> for
  every longitude in \<open>[-180, 180]\<close>, with zone 60 at longitude 180. At longitude 180 the
  formula gives \<open>floor (360 / 6) + 1\<close>: the conversion returns zone 61, whatever the
  library and the latitude.
\<close>

theorem zone_at_180_is_61:
  "fuso (toUtmEd50 P E \<lparr>latitude = 0, longitude = 180\<rparr>) = 61"
  by (simp add: toUtmEd50_fuso)

text \<open>
  C4. The hemisphere is \<open>S\<close> exactly when the latitude is below zero and \<open>N\<close> exactly when
  it is zero or above; the points (-1, 0) and (1, 0) give \<open>S\<close> and \<open>N\<close>.
\<close>

theorem hemisphere_south_iff_negative:
  "(emisfero (toUtmEd50 P E pt) = ''S'' \<longleftrightarrow> latitude pt < 0)
   \<and> (emisfero (toUtmEd50 P E pt) = ''N'' \<longleftrightarrow> 0 \<le> latitude pt)
   \<and> emisfero (toUtmEd50 P E \<lparr>latitude = 0, longitude = x\<rparr>) = ''N''
   \<and> emisfero (toUtmEd50 P E \<lparr>latitude = - 1, longitude = 0\<rparr>) = ''S''
   \<and> emisfero (toUtmEd50 P E \<lparr>latitude = 1, longitude = 0\<rparr>) = ''N''"
  by (auto simp add: toUtmEd50_emisfero)

text \<open>For Rome the zone is 33 and the hemisphere \<open>N\<close>; the projected pair is the library's.\<close>

lemma rome_zone_hemisphere:
  "fuso (toUtmEd50 P E \<lparr>latitude = 41.9028, longitude = 12.4964\<rparr>) = 33
   \<and> emisfero (toUtmEd50 P E \<lparr>latitude = 41.9028, longitude = 12.4964\<rparr>) = ''N''"
  by (simp add: toUtmEd50_fuso toUtmEd50_emisfero)

section \<open>The handler\<close>

text \<open>
  The handler hands the conversion's result to \<open>setClickedPoint\<close>: the component state
  afterwards is the state before with that result as the clicked point.
\<close>

lemma handleMapPress_stores_result:
  "handleMapPress P E ev st
     = st\<lparr>clickedPoint := Some (toUtmEd50 P E (coordinate (nativeEvent ev)))\<rparr>"
  by (simp add: handleMapPress_def setClickedPoint_def)

section \<open>Decimal digits\<close>

text \<open>Printing a number and reading the digits back gives the number.\<close>

lemma below_ten_cases:
  "k < 10 \<Longrightarrow> k = 0 \<or> k = 1 \<or> k = 2 \<or> k = 3 \<or> k = 4 \<or> k = 5 \<or> k = 6 \<or> k = 7 \<or> k = 8 \<or> k = (9::nat)"
  by arith

lemma digit_char_is_digit: "k < 10 \<Longrightarrow> is_digit (digit_char k)"
  by (drule below_ten_cases) (auto simp add: digit_char_def is_digit_def)

lemma digit_value_digit_char: "k < 10 \<Longrightarrow> digit_value (digit_char k) = k"
  by (drule below_ten_cases) (auto simp add: digit_char_def digit_value_def)

lemma is_digit_not_punctuation:
  "is_digit c \<Longrightarrow> c \<noteq> CHR '' '' \<and> c \<noteq> CHR ''-'' \<and> c \<noteq> CHR ''.'' \<and> c \<noteq> CHR ''+'' \<and> c \<noteq> CHR ''=''"
  by (auto simp add: is_digit_def)

lemma decimal_digits_all_digits: "list_all is_digit (decimal_digits n)"
proof (induction n rule: decimal_digits.induct)
  case (1 n)
  show ?case
  proof (cases "n < 10")
    case True
    then show ?thesis
      by (subst decimal_digits.simps) (simp add: digit_char_is_digit)
  next
    case False
    with 1 show ?thesis
      by (subst decimal_digits.simps) (simp add: digit_char_is_digit)
  qed
qed

lemma decimal_digits_nonempty: "decimal_digits n \<noteq> []"
  by (subst decimal_digits.simps) simp

lemma digits_value_snoc: "digits_value (xs @ [c]) = 10 * digits_value xs + digit_value c"
  by (simp add: digits_value_def)

lemma digits_value_decimal_digits: "digits_value (decimal_digits n) = n"
proof (induction n rule: decimal_digits.induct)
  case (1 n)
  show ?case
  proof (cases "n < 10")
    case True
    then show ?thesis
      by (subst decimal_digits.simps) (simp add: digits_value_def digit_value_digit_char)
  next
    case False
    with 1 have "digits_value (decimal_digits (n div 10)) = n div 10" by simp
    with False show ?thesis
      by (subst decimal_digits.simps) (simp add: digits_value_snoc digit_value_digit_char)
  qed
qed

lemma read_nat_decimal_digits: "read_nat (decimal_digits n) = Some n"
  by (simp add: read_nat_def decimal_digits_nonempty decimal_digits_all_digits
      digits_value_decimal_digits)

lemma hd_decimal_digits_not_minus: "hd (decimal_digits n) \<noteq> CHR ''-''"
proof -
  have "hd (decimal_digits n) \<in> set (decimal_digits n)"
    by (simp add: decimal_digits_nonempty)
  then have "is_digit (hd (decimal_digits n))"
    using decimal_digits_all_digits [of n] by (simp add: list_all_iff)
  then show ?thesis by (simp add: is_digit_not_punctuation)
qed

lemma read_int_number_to_string:
  assumes "\<bar>n\<bar> < 10 ^ 21"
  shows "read_int (number_to_string E n) = Some n"
proof (cases "n < 0")
  case True
  with assms show ?thesis
    by (simp add: read_int_def number_to_string_def read_nat_decimal_digits)
next
  case False
  with assms show ?thesis
    by (simp add: read_int_def number_to_string_def read_nat_decimal_digits
        decimal_digits_nonempty hd_decimal_digits_not_minus)
qed

lemma no_blank_in_number:
  assumes "\<bar>n\<bar> < 10 ^ 21"
  shows "CHR '' '' \<notin> set (number_to_string E n)"
proof -
  have "CHR '' '' \<notin> set (decimal_digits k)" for k
    using decimal_digits_all_digits [of k] is_digit_not_punctuation
    by (auto simp add: list_all_iff)
  with assms show ?thesis
    by (simp add: number_to_string_def)
qed

lemma split_on_nonempty: "split_on c xs \<noteq> []"
  by (induction xs) (auto split: list.split)

lemma split_on_append:
  "c \<notin> set ds \<Longrightarrow> split_on c (ds @ ys) = (ds @ hd (split_on c ys)) # tl (split_on c ys)"
proof (induction ds)
  case Nil
  then show ?case by (simp add: split_on_nonempty)
next
  case (Cons d ds)
  then show ?case by auto
qed


lemma parameters_proj4String:
  assumes "\<bar>n\<bar> < 10 ^ 21"
  shows "parameters (proj4String E n (if sth then '' +south'' else []))
     = [(''proj'', ''utm''), (''zone'', number_to_string E n)]
       @ (if sth then [(''south'', [])] else [])
       @ [(''ellps'', ''intl''), (''towgs84'', ''-87,-98,-121,0,0,0,0''),
          (''units'', ''m''), (''no_defs'', [])]"
  using no_blank_in_number [OF assms, of E]
  by (simp add: proj4String_def parameters_def split_on_append parameter_def
      List.map_filter_def)

lemma read_definition_proj4String:
  assumes "\<bar>n\<bar> < 10 ^ 21"
  shows "read_definition (proj4String E n (if sth then '' +south'' else []))
     = Some \<lparr>projection = ''utm'', zone = n, south = sth, ellipsoid = ''intl'',
             datumShift = [- 87, - 98, - 121, 0, 0, 0, 0], units = ''m''\<rparr>"
  unfolding read_definition_def parameters_proj4String [OF assms]
  by (simp add: read_int_number_to_string [OF assms])
    (simp_all add: read_int_def read_nat_def is_digit_def digits_value_def digit_value_def)

section \<open>The projection definition\<close>

lemma toUtmEd50_est_nord:
  "est (toUtmEd50 P E pt) = toFixed E (fst (projected P E pt)) 2
   \<and> nord (toUtmEd50 P E pt) = toFixed E (snd (projected P E pt)) 2"
  by (simp add: toUtmEd50_def projected_def Let_def split: prod.split)

lemma zone_magnitude:
  assumes "- 180 \<le> longitude pt" "longitude pt \<le> 180"
  shows "\<bar>fuso (toUtmEd50 P E pt)\<bar> < 10 ^ 21"
proof -
  have "0 \<le> (longitude pt + 180) / 6" using assms by simp
  then have "0 \<le> \<lfloor>(longitude pt + 180) / 6\<rfloor>" by simp
  moreover have "(longitude pt + 180) / 6 < 61" using assms by simp
  then have "\<lfloor>(longitude pt + 180) / 6\<rfloor> < 61" by (simp add: floor_less_iff)
  ultimately show ?thesis by (simp add: toUtmEd50_fuso)
qed

text \<open>
  C2. For every point with a longitude in \<open>[-180, 180]\<close>, the target definition the
  conversion hands to the library is built from the zone and hemisphere it returns, and it
  says exactly: projection \<open>utm\<close>, that zone, the \<open>south\<close> flag if and only if the
  hemisphere is \<open>S\<close>, ellipsoid \<open>intl\<close> (International 1924), the seven datum-shift
  parameters -87, -98, -121, 0, 0, 0, 0 and units \<open>m\<close>. Its only other word is the
  \<open>no_defs\<close> flag. The stored easting and northing are the library's result for this
  definition.
\<close>

theorem projection_definition_parameters:
  assumes "- 180 \<le> longitude pt" and "longitude pt \<le> 180"
  shows "let r = toUtmEd50 P E pt;
             target = proj4String E (fuso r) (if emisfero r = ''S'' then '' +south'' else [])
         in read_definition target
              = Some \<lparr>projection = ''utm'', zone = fuso r, south = (emisfero r = ''S''),
                      ellipsoid = ''intl'', datumShift = [- 87, - 98, - 121, 0, 0, 0, 0],
                      units = ''m''\<rparr>
            \<and> map fst (parameters target)
              = [''proj'', ''zone''] @ (if emisfero r = ''S'' then [''south''] else [])
                @ [''ellps'', ''towgs84'', ''units'', ''no_defs'']
            \<and> est r = toFixed E (fst (P ''WGS84'' target (longitude pt, latitude pt))) 2
            \<and> nord r = toFixed E (snd (P ''WGS84'' target (longitude pt, latitude pt))) 2"
proof -
  let ?r = "toUtmEd50 P E pt"
  let ?target = "proj4String E (fuso ?r) (if emisfero ?r = ''S'' then '' +south'' else [])"
  have small: "\<bar>fuso ?r\<bar> < 10 ^ 21" using assms by (rule zone_magnitude)
  have a: "read_definition ?target
      = Some \<lparr>projection = ''utm'', zone = fuso ?r, south = (emisfero ?r = ''S''),
              ellipsoid = ''intl'', datumShift = [- 87, - 98, - 121, 0, 0, 0, 0],
              units = ''m''\<rparr>"
    using small by (rule read_definition_proj4String)
  have b: "map fst (parameters ?target)
      = [''proj'', ''zone''] @ (if emisfero ?r = ''S'' then [''south''] else [])
        @ [''ellps'', ''towgs84'', ''units'', ''no_defs'']"
    unfolding parameters_proj4String [OF small] by simp
  have t: "?target = proj4String E (\<lfloor>(longitude pt + 180) / 6\<rfloor> + 1)
          (if latitude pt < 0 then '' +south'' else [])"
    by (simp add: toUtmEd50_fuso toUtmEd50_emisfero)
  have c: "est ?r = toFixed E (fst (P ''WGS84'' ?target (longitude pt, latitude pt))) 2"
    and d: "nord ?r = toFixed E (snd (P ''WGS84'' ?target (longitude pt, latitude pt))) 2"
    unfolding t using toUtmEd50_est_nord [of P E pt] by (simp_all add: projected_def)
  from a b c d show ?thesis unfolding Let_def by blast
qed

theorem projection_definition_parameters_witness:
  "- 180 \<le> longitude \<lparr>latitude = - 1, longitude = 3\<rparr>
   \<and> longitude \<lparr>latitude = - 1, longitude = 3\<rparr> \<le> 180
   \<and> read_definition (proj4String (\<lambda>x. []) 31 '' +south'')
       = Some \<lparr>projection = ''utm'', zone = 31, south = True, ellipsoid = ''intl'',
               datumShift = [- 87, - 98, - 121, 0, 0, 0, 0], units = ''m''\<rparr>"
  using projection_definition_parameters
    [of "\<lparr>latitude = - 1, longitude = 3\<rparr>" "\<lambda>s t p. p" "\<lambda>x. []"]
  by (simp add: Let_def toUtmEd50_fuso toUtmEd50_emisfero)

section \<open>Displayed easting and northing\<close>

lemma digits_value_append:
  "digits_value (xs @ ys) = digits_value xs * 10 ^ length ys + digits_value ys"
proof (induction ys rule: rev_induct)
  case Nil
  then show ?case by (simp add: digits_value_def)
next
  case (snoc y ys)
  have "digits_value (xs @ ys @ [y]) = 10 * digits_value (xs @ ys) + digit_value y"
    using digits_value_snoc [of "xs @ ys" y] by simp
  with snoc show ?case
    by (simp add: digits_value_snoc algebra_simps)
qed

lemma digits_value_zeros: "digits_value (replicate j CHR ''0'') = 0"
  by (induction j) (simp_all add: digits_value_def digit_value_def)

lemma digits_value_padded:
  "digits_value (replicate j CHR ''0'' @ m) = digits_value m"
  by (simp add: digits_value_append digits_value_zeros)

lemma zero_is_digit: "is_digit CHR ''0''"
  by (simp add: is_digit_def)

lemma padded_all_digits: "list_all is_digit (padded n)"
  using decimal_digits_all_digits [of n]
  by (auto simp add: padded_def list_all_iff zero_is_digit)

lemma padded_length: "3 \<le> length (padded n)"
  by (simp add: padded_def)

lemma padded_value: "digits_value (padded n) = n"
  by (simp add: padded_def digits_value_padded digits_value_decimal_digits)

lemma toFixed_two:
  assumes "\<bar>x\<bar> < 10 ^ 21"
  shows "toFixed E x 2 = (if x < 0 then ''-'' else [])
     @ take (length (padded (nat \<lfloor>\<bar>x\<bar> * 100 + 1 / 2\<rfloor>)) - 2) (padded (nat \<lfloor>\<bar>x\<bar> * 100 + 1 / 2\<rfloor>))
     @ ''.'' @ drop (length (padded (nat \<lfloor>\<bar>x\<bar> * 100 + 1 / 2\<rfloor>)) - 2) (padded (nat \<lfloor>\<bar>x\<bar> * 100 + 1 / 2\<rfloor>))"
proof (cases "x < 0")
  case True
  then have "\<bar>x\<bar> = - x" by simp
  with assms True show ?thesis
    by (simp add: toFixed_def Let_def padded_def)
next
  case False
  then have "\<bar>x\<bar> = x" by simp
  with assms False show ?thesis
    by (simp add: toFixed_def Let_def padded_def)
qed

lemma read_decimal_parts:
  assumes "a \<noteq> []" "list_all is_digit a" "b \<noteq> []" "list_all is_digit b"
  shows "read_decimal (a @ ''.'' @ b)
           = Some (real (digits_value a) + real (digits_value b) / 10 ^ length b, length b)"
    and "read_decimal (''-'' @ a @ ''.'' @ b)
           = Some (- (real (digits_value a) + real (digits_value b) / 10 ^ length b), length b)"
proof -
  have nodot: "\<And>c. c \<in> set a \<Longrightarrow> c \<noteq> CHR ''.''"
    using assms(2) is_digit_not_punctuation by (auto simp add: list_all_iff)
  have "hd a \<in> set a" using assms(1) by (rule hd_in_set)
  then have "is_digit (hd a)" using assms(2) by (simp add: list_all_iff)
  then have hd_a: "hd a \<noteq> CHR ''-''" by (simp add: is_digit_not_punctuation)
  have tw: "takeWhile (\<lambda>c. c \<noteq> CHR ''.'') (a @ CHR ''.'' # b) = a"
    using nodot by (simp add: takeWhile_append2)
  have dw: "dropWhile (\<lambda>c. c \<noteq> CHR ''.'') (a @ CHR ''.'' # b) = CHR ''.'' # b"
    using nodot by (simp add: dropWhile_append2)
  have ra: "read_nat a = Some (digits_value a)" using assms(1,2) by (simp add: read_nat_def)
  have rb: "read_nat b = Some (digits_value b)" using assms(3,4) by (simp add: read_nat_def)
  show "read_decimal (a @ ''.'' @ b)
           = Some (real (digits_value a) + real (digits_value b) / 10 ^ length b, length b)"
    using assms(1) hd_a by (simp add: read_decimal_def Let_def tw dw ra rb)
  show "read_decimal (''-'' @ a @ ''.'' @ b)
           = Some (- (real (digits_value a) + real (digits_value b) / 10 ^ length b), length b)"
    by (simp add: read_decimal_def Let_def tw dw ra rb)
qed

lemma read_fixed_body:
  assumes "list_all is_digit m" "3 \<le> length m"
  shows "read_decimal (take (length m - 2) m @ ''.'' @ drop (length m - 2) m)
           = Some (real (digits_value m) / 100, 2)"
    and "read_decimal (''-'' @ take (length m - 2) m @ ''.'' @ drop (length m - 2) m)
           = Some (- (real (digits_value m) / 100), 2)"
proof -
  define a where "a = take (length m - 2) m"
  define b where "b = drop (length m - 2) m"
  have m: "a @ b = m" by (simp add: a_def b_def)
  have da: "list_all is_digit a" and db: "list_all is_digit b"
    using assms(1) by (auto simp add: a_def b_def list_all_iff dest: in_set_takeD in_set_dropD)
  have la: "a \<noteq> []" and lb: "length b = 2" using assms(2) by (auto simp add: a_def b_def)
  from lb have nb: "b \<noteq> []" by auto
  have "digits_value (a @ b) = digits_value a * 10 ^ length b + digits_value b"
    by (rule digits_value_append)
  then have "digits_value m = digits_value a * 100 + digits_value b"
    by (simp add: lb m)
  then have v: "real (digits_value a) + real (digits_value b) / 10 ^ length b
      = real (digits_value m) / 100"
    by (simp add: lb)
  have pos: "read_decimal (a @ ''.'' @ b) = Some (real (digits_value m) / 100, 2)"
    using read_decimal_parts(1) [OF la da nb db, unfolded v, unfolded lb] .
  have neg: "read_decimal (''-'' @ a @ ''.'' @ b) = Some (- (real (digits_value m) / 100), 2)"
    using read_decimal_parts(2) [OF la da nb db, unfolded v, unfolded lb] .
  show "read_decimal (take (length m - 2) m @ ''.'' @ drop (length m - 2) m)
           = Some (real (digits_value m) / 100, 2)"
    using pos unfolding a_def b_def .
  show "read_decimal (''-'' @ take (length m - 2) m @ ''.'' @ drop (length m - 2) m)
           = Some (- (real (digits_value m) / 100), 2)"
    using neg unfolding a_def b_def .
qed

lemma rounded_close: "\<bar>rounded x 2 - x\<bar> \<le> 1 / 200"
proof -
  let ?n = "\<lfloor>\<bar>x\<bar> * 10 ^ 2 + 1 / 2\<rfloor>"
  have up: "real_of_int ?n \<le> \<bar>x\<bar> * 10 ^ 2 + 1 / 2" by (rule of_int_floor_le)
  have lo: "\<bar>x\<bar> * 10 ^ 2 + 1 / 2 < real_of_int ?n + 1" by linarith
  have "\<bar>real_of_int ?n - \<bar>x\<bar> * 10 ^ 2\<bar> \<le> 1 / 2"
    using up lo by linarith
  moreover have "real_of_int ?n / 10 ^ 2 - \<bar>x\<bar> = (real_of_int ?n - \<bar>x\<bar> * 10 ^ 2) / 100"
    by (simp add: diff_divide_distrib)
  ultimately have near: "\<bar>real_of_int ?n / 10 ^ 2 - \<bar>x\<bar>\<bar> \<le> 1 / 200"
    by (simp only: abs_divide) simp
  have "rounded x 2 - x = sgn x * (real_of_int ?n / 10 ^ 2 - \<bar>x\<bar>)"
    by (simp add: rounded_def right_diff_distrib mult_sgn_abs)
  then have "\<bar>rounded x 2 - x\<bar> = \<bar>sgn x\<bar> * \<bar>real_of_int ?n / 10 ^ 2 - \<bar>x\<bar>\<bar>"
    by (simp add: abs_mult)
  also have "\<dots> \<le> 1 * \<bar>real_of_int ?n / 10 ^ 2 - \<bar>x\<bar>\<bar>"
    by (intro mult_right_mono) (simp_all add: abs_sgn_eq)
  finally show ?thesis using near by simp
qed

lemma read_toFixed_two:
  assumes "\<bar>x\<bar> < 10 ^ 21"
  shows "read_decimal (toFixed E x 2) = Some (rounded x 2, 2)"
proof -
  let ?n = "nat \<lfloor>\<bar>x\<bar> * 100 + 1 / 2\<rfloor>"
  have nn: "0 \<le> \<lfloor>\<bar>x\<bar> * 100 + 1 / 2\<rfloor>" by simp
  have val: "real_of_int \<lfloor>\<bar>x\<bar> * 100 + 1 / 2\<rfloor> = real (digits_value (padded ?n))"
    using nn by (simp add: padded_value)
  have "rounded x 2 = sgn x * (real_of_int \<lfloor>\<bar>x\<bar> * 100 + 1 / 2\<rfloor> / 100)"
    by (simp add: rounded_def)
  then have r: "rounded x 2 = sgn x * (real (digits_value (padded ?n)) / 100)"
    by (simp only: val)
  show ?thesis
  proof (cases "x < 0")
    case True
    then have "rounded x 2 = - (real (digits_value (padded ?n)) / 100)"
      by (simp add: r)
    with True show ?thesis
      using read_fixed_body(2) [OF padded_all_digits padded_length, of ?n]
      by (simp add: toFixed_two [OF assms])
  next
    case False
    have "rounded x 2 = real (digits_value (padded ?n)) / 100"
    proof (cases "x = 0")
      case True
      then have "real (digits_value (padded ?n)) = 0"
        using val by simp
      with True show ?thesis by (simp add: rounded_def)
    next
      case False
      with \<open>\<not> x < 0\<close> have "sgn x = 1" by simp
      then show ?thesis by (simp add: r)
    qed
    with False show ?thesis
      using read_fixed_body(1) [OF padded_all_digits padded_length, of ?n]
      by (simp add: toFixed_two [OF assms])
  qed
qed

text \<open>For a library that returns the pair (291965.288, -4641911.125):\<close>

lemma display_example:
  "est (toUtmEd50 (\<lambda>s t p. (291965.288, - 4641911.125)) E pt) = ''291965.29''
   \<and> nord (toUtmEd50 (\<lambda>s t p. (291965.288, - 4641911.125)) E pt) = ''-4641911.13''"
  by (simp add: toUtmEd50_est_nord projected_def toFixed_def Let_def decimal_digits.simps
      digit_char_def)

text \<open>
  C7. Whenever the projected values are below \<open>10\<^sup>2\<^sup>1\<close> in magnitude (every UTM
  coordinate is), the stored easting and northing are decimal numerals with exactly two
  decimal places whose values are the projected values rounded to two places: they differ
  from the projected values by at most half a hundredth. They are carried as strings.
\<close>

theorem easting_northing_two_decimals:
  assumes "\<bar>fst (projected P E pt)\<bar> < 10 ^ 21" and "\<bar>snd (projected P E pt)\<bar> < 10 ^ 21"
  shows "read_decimal (est (toUtmEd50 P E pt)) = Some (rounded (fst (projected P E pt)) 2, 2)
       \<and> \<bar>rounded (fst (projected P E pt)) 2 - fst (projected P E pt)\<bar> \<le> 1 / 200
       \<and> read_decimal (nord (toUtmEd50 P E pt)) = Some (rounded (snd (projected P E pt)) 2, 2)
       \<and> \<bar>rounded (snd (projected P E pt)) 2 - snd (projected P E pt)\<bar> \<le> 1 / 200"
proof -
  have e: "read_decimal (est (toUtmEd50 P E pt)) = Some (rounded (fst (projected P E pt)) 2, 2)"
    using assms(1) by (simp add: toUtmEd50_est_nord read_toFixed_two)
  have n: "read_decimal (nord (toUtmEd50 P E pt)) = Some (rounded (snd (projected P E pt)) 2, 2)"
    using assms(2) by (simp add: toUtmEd50_est_nord read_toFixed_two)
  show ?thesis
    using e n rounded_close [of "fst (projected P E pt)"] rounded_close [of "snd (projected P E pt)"]
    by blast
qed

theorem easting_northing_two_decimals_witness:
  "\<bar>fst (projected (\<lambda>s t p. (291965.288, - 4641911.125)) (\<lambda>x. [])
            \<lparr>latitude = 41.9028, longitude = 12.4964\<rparr>)\<bar> < 10 ^ 21
   \<and> \<bar>snd (projected (\<lambda>s t p. (291965.288, - 4641911.125)) (\<lambda>x. [])
            \<lparr>latitude = 41.9028, longitude = 12.4964\<rparr>)\<bar> < 10 ^ 21
   \<and> read_decimal (est (toUtmEd50 (\<lambda>s t p. (291965.288, - 4641911.125)) (\<lambda>x. [])
            \<lparr>latitude = 41.9028, longitude = 12.4964\<rparr>)) = Some (291965.29, 2)
   \<and> read_decimal (nord (toUtmEd50 (\<lambda>s t p. (291965.288, - 4641911.125)) (\<lambda>x. [])
            \<lparr>latitude = 41.9028, longitude = 12.4964\<rparr>)) = Some (- 4641911.13, 2)"
  using easting_northing_two_decimals
    [of "\<lambda>s t p. (291965.288, - 4641911.125)" "\<lambda>x. []"
        "\<lparr>latitude = 41.9028, longitude = 12.4964\<rparr>"]
  by (simp add: projected_def rounded_def)

end
